theory Spec2Isabelle
  imports Main "HOL-Library.Sublist"
begin

section \<open>Platform primitives used by the sources\<close>

text \<open>
  Strings are lists of characters.  The string methods the sources call are written out
  here: \<^verbatim>\<open>toLowerCase\<close> (on the ASCII letters), \<^verbatim>\<open>includes\<close>,
  \<^verbatim>\<open>startsWith\<close> and \<^verbatim>\<open>Array.prototype.join\<close>.
\<close>

definition lowerChar :: "char \<Rightarrow> char" where
  "lowerChar c =
     (let n = (of_char c :: nat) in if 65 \<le> n \<and> n \<le> 90 then char_of (n + 32) else c)"

definition toLowerCase :: "string \<Rightarrow> string" where
  "toLowerCase s = map lowerChar s"

fun startsWith :: "string \<Rightarrow> string \<Rightarrow> bool" where
  "startsWith s [] = True"
| "startsWith [] (p # ps) = False"
| "startsWith (c # cs) (p # ps) = (c = p \<and> startsWith cs ps)"

text \<open>\<open>strIncludes s sub\<close> is \<^verbatim>\<open>s.includes(sub)\<close>: \<open>sub\<close> occurs in \<open>s\<close> at some position.\<close>

fun strIncludes :: "string \<Rightarrow> string \<Rightarrow> bool" where
  "strIncludes [] sub = (sub = [])"
| "strIncludes (c # cs) sub = (startsWith (c # cs) sub \<or> strIncludes cs sub)"

fun join :: "string \<Rightarrow> string list \<Rightarrow> string" where
  "join sep [] = []"
| "join sep [x] = x"
| "join sep (x # y # ys) = x @ sep @ join sep (y # ys)"

text \<open>\<^verbatim>\<open>xs.some(p)\<close> and \<^verbatim>\<open>xs.includes(x)\<close> on arrays.\<close>

fun some :: "('a \<Rightarrow> bool) \<Rightarrow> 'a list \<Rightarrow> bool" where
  "some p [] = False"
| "some p (x # xs) = (p x \<or> some p xs)"

definition arrayIncludes :: "'a list \<Rightarrow> 'a \<Rightarrow> bool" where
  "arrayIncludes xs x = some (\<lambda>y. y = x) xs"

text \<open>
  A \<^verbatim>\<open>Date\<close> holds a time value: milliseconds since the epoch, or \<^verbatim>\<open>NaN\<close>
  for an invalid date.  \<^verbatim>\<open>new Date(s)\<close> never throws on a string; a string that is
  not a date gives the invalid date.  The time value is \<open>Some ms\<close>, and \<open>None\<close> for
  \<^verbatim>\<open>NaN\<close>.  The string parser of the platform is a parameter \<open>parse\<close> of the
  functions that build dates from strings.
\<close>

type_synonym Date = "int option"

type_synonym DateParser = "string \<Rightarrow> Date"

text \<open>\<^verbatim>\<open>a >= b\<close> on two dates compares the time values; any comparison with
  \<^verbatim>\<open>NaN\<close> is false.\<close>

fun dateGe :: "Date \<Rightarrow> Date \<Rightarrow> bool" where
  "dateGe (Some a) (Some b) = (b \<le> a)"
| "dateGe None b = False"
| "dateGe (Some a) None = False"

definition msPerDay :: int where
  "msPerDay = 1000 * 60 * 60 * 24"

text \<open>A time value outside the range of dates becomes the invalid date.  In the zone UTC a
  step back of \<open>n\<close> calendar days is a step of \<open>n\<close> times 24 hours.\<close>

definition timeClip :: "int \<Rightarrow> Date" where
  "timeClip v = (if \<bar>v\<bar> \<le> 8640000000000000 then Some v else None)"

definition utcDaysBack :: "int \<Rightarrow> int \<Rightarrow> Date" where
  "utcDaysBack t n = timeClip (t - n * msPerDay)"

text \<open>
  For concrete runs the parser is \<open>isoDateParse\<close>: the date-time format that
  \<^verbatim>\<open>toISOString\<close> writes, \<^verbatim>\<open>YYYY-MM-DDTHH:mm:ss.sssZ\<close>, with the
  milliseconds optional.  It takes every other string as not a date; the general results
  below hold for any parser.
\<close>

definition digitVal :: "char \<Rightarrow> int option" where
  "digitVal c =
     (let n = (of_char c :: nat) in if 48 \<le> n \<and> n \<le> 57 then Some (int n - 48) else None)"

fun number :: "string \<Rightarrow> int option" where
  "number [] = None"
| "number (c # cs) =
     foldl (\<lambda>acc ch. case acc of None \<Rightarrow> None
                       | Some a \<Rightarrow> (case digitVal ch of None \<Rightarrow> None | Some v \<Rightarrow> Some (10 * a + v)))
           (Some 0) (c # cs)"

definition slice :: "nat \<Rightarrow> nat \<Rightarrow> 'a list \<Rightarrow> 'a list" where
  "slice a b xs = take (b - a) (drop a xs)"

definition isLeapYear :: "int \<Rightarrow> bool" where
  "isLeapYear y = (if y mod 400 = 0 then True else if y mod 100 = 0 then False else y mod 4 = 0)"

definition daysInMonth :: "int \<Rightarrow> int \<Rightarrow> int" where
  "daysInMonth y m =
     (if m = 2 then (if isLeapYear y then 29 else 28)
      else if m = 4 \<or> m = 6 \<or> m = 9 \<or> m = 11 then 30 else 31)"

text \<open>Days from 1970-01-01 to the given day of the proleptic Gregorian calendar.\<close>

definition daysFromCivil :: "int \<Rightarrow> int \<Rightarrow> int \<Rightarrow> int" where
  "daysFromCivil y m d =
     (let y' = (if m \<le> 2 then y - 1 else y);
          era = y' div 400;
          yoe = y' - era * 400;
          doy = (153 * (if m > 2 then m - 3 else m + 9) + 2) div 5 + d - 1;
          doe = yoe * 365 + yoe div 4 - yoe div 100 + doy
      in era * 146097 + doe - 719468)"

definition isoDateParse :: DateParser where
  "isoDateParse s =
     (if slice 4 5 s = ''-'' \<and> slice 7 8 s = ''-'' \<and> slice 10 11 s = ''T'' \<and>
         slice 13 14 s = '':'' \<and> slice 16 17 s = '':'' \<and>
         (drop 19 s = ''Z'' \<or> (slice 19 20 s = ''.'' \<and> drop 23 s = ''Z''))
      then
        (case (number (slice 0 4 s), number (slice 5 7 s), number (slice 8 10 s),
               number (slice 11 13 s), number (slice 14 16 s), number (slice 17 19 s),
               (if drop 19 s = ''Z'' then Some 0 else number (slice 20 23 s))) of
           (Some y, Some mo, Some d, Some h, Some mi, Some sec, Some ms) \<Rightarrow>
             if 1 \<le> mo \<and> mo \<le> 12 \<and> 1 \<le> d \<and> d \<le> daysInMonth y mo \<and>
                h \<le> 23 \<and> mi \<le> 59 \<and> sec \<le> 59
             then Some (daysFromCivil y mo d * msPerDay
                        + h * 3600000 + mi * 60000 + sec * 1000 + ms)
             else None
         | _ \<Rightarrow> None)
      else None)"

section \<open>Data model (types.ts)\<close>

record Reference =
  url :: string
  platform :: string
  name :: string
  description :: string
  techStack :: "string list"
  features :: "string list"
  domain :: string
  relevanceScore :: int
  stars :: "int option"
  lastUpdated :: string
  notesText :: "string option"
  tags :: "string list option"

record ReferencesData =
  projectPath :: string
  currentTechStack :: "string list"
  references :: "Reference list"
  lastResearchDate :: string

record TechStackAnalysis =
  language :: string
  dependencies :: "string list"
  frameworks :: "string list"
  libraries :: "string list"

section \<open>research-engine.ts\<close>

subsection \<open>constructSearchQuery\<close>

text \<open>The three guarded pushes onto \<^verbatim>\<open>queryParts\<close>, then the platform token.\<close>

definition domainPart :: "string \<Rightarrow> string list" where
  "domainPart dm = (if dm \<noteq> [] \<and> dm \<noteq> ''general'' then [dm] else [])"

definition techPart :: "string list \<Rightarrow> string list" where
  "techPart ts = (let keyTech = take 3 ts in if length keyTech > 0 then [join '' '' keyTech] else [])"

definition featurePart :: "string list \<Rightarrow> string list" where
  "featurePart fs =
     (let keyFeatures = take 2 fs in if length keyFeatures > 0 then [join '' '' keyFeatures] else [])"

definition constructSearchQuery :: "string list \<Rightarrow> string list \<Rightarrow> string \<Rightarrow> string" where
  "constructSearchQuery ts fs dm =
     (let queryParts = [];
          queryParts = queryParts @ domainPart dm;
          queryParts = queryParts @ techPart ts;
          queryParts = queryParts @ featurePart fs;
          queryParts = queryParts @ [''github'']
      in join '' '' queryParts)"

subsection \<open>calculateRelevanceScore\<close>

definition techOverlap :: "Reference \<Rightarrow> string list \<Rightarrow> nat" where
  "techOverlap reference targetTechStack =
     length (filter (\<lambda>tech. some (\<lambda>target. strIncludes (toLowerCase target) (toLowerCase tech))
                               targetTechStack)
                    (techStack reference))"

definition featureOverlap :: "Reference \<Rightarrow> string list \<Rightarrow> nat" where
  "featureOverlap reference targetFeatures =
     length (filter (\<lambda>feature. some (\<lambda>target. strIncludes (toLowerCase target) (toLowerCase feature))
                                  targetFeatures)
                    (features reference))"

definition domainScore :: "Reference \<Rightarrow> string \<Rightarrow> int" where
  "domainScore reference targetDomain =
     (if domain reference \<noteq> [] \<and> targetDomain \<noteq> [] \<and> domain reference = targetDomain
      then 20 else 0)"

text \<open>
  The recency bonus.  \<open>now\<close> is \<^verbatim>\<open>Date.now()\<close>.  With an invalid date
  \<^verbatim>\<open>daysSinceUpdate\<close> is \<^verbatim>\<open>NaN\<close> and both comparisons are false.  The
  difference of two time values is an integer number of milliseconds, so
  \<^verbatim>\<open>diff / msPerDay < 30\<close> is \<open>diff < 30 * msPerDay\<close>.
\<close>

definition recencyBonus :: "DateParser \<Rightarrow> int \<Rightarrow> Reference \<Rightarrow> int" where
  "recencyBonus parse now reference =
     (case parse (lastUpdated reference) of
        None \<Rightarrow> 0
      | Some t \<Rightarrow>
          if now - t < 30 * msPerDay then 10
          else if now - t < 90 * msPerDay then 5
          else 0)"

definition calculateRelevanceScore ::
  "DateParser \<Rightarrow> int \<Rightarrow> Reference \<Rightarrow> string list \<Rightarrow> string list \<Rightarrow> string \<Rightarrow> int" where
  "calculateRelevanceScore parse now reference targetTechStack targetFeatures targetDomain =
     (let score = 0;
          score = score + min (int (techOverlap reference targetTechStack) * 10) 40;
          score = score + min (int (featureOverlap reference targetFeatures) * 10) 30;
          score = score + domainScore reference targetDomain;
          score = score + recencyBonus parse now reference
      in min score 100)"

section \<open>Errors and results (types.ts)\<close>

text \<open>
  An \<^verbatim>\<open>Error\<close> instance has a name, a message and an optional cause.  What a
  \<^verbatim>\<open>catch\<close> receives is either an \<^verbatim>\<open>Error\<close> instance or some other
  value, kept as its \<^verbatim>\<open>String(...)\<close> conversion.  The error classes are those of
  types.ts: the constructor takes the message and an optional cause.  The promise of an
  asynchronous operation either resolves with the value the operation returns or rejects
  with what the operation throws.
\<close>

datatype JsError = MkError (errName: string) (errMessage: string) (errCause: "JsError option")

datatype Thrown = ThrownError JsError | ThrownValue string

definition ReferenceManagerError :: "string \<Rightarrow> JsError option \<Rightarrow> JsError" where
  "ReferenceManagerError message cause = MkError ''ReferenceManagerError'' message cause"

definition ProjectAnalysisError :: "string \<Rightarrow> JsError option \<Rightarrow> JsError" where
  "ProjectAnalysisError message cause = MkError ''ProjectAnalysisError'' message cause"

datatype 'a Result = Success 'a | Failure JsError

datatype 'a Outcome = Returned 'a | Rejected JsError

text \<open>
  The handler every operation of reference-manager.ts ends with:
  \<^verbatim>\<open>error instanceof Error ? error : new ReferenceManagerError(String(error))\<close>.
  An \<^verbatim>\<open>Error\<close> instance is returned as the error of a failure.  For any other value
  the handler evaluates \<^verbatim>\<open>new ReferenceManagerError(...)\<close>; reference-manager.ts
  imports only types and has no binding of that name, so the evaluation throws a
  \<^verbatim>\<open>ReferenceError\<close> out of the handler and the operation rejects.
\<close>

definition unboundReferenceManagerError :: JsError where
  "unboundReferenceManagerError =
     MkError ''ReferenceError'' ''ReferenceManagerError is not defined'' None"

definition catchAsFailure :: "Thrown \<Rightarrow> 'a Result Outcome" where
  "catchAsFailure thrown =
     (case thrown of
        ThrownError err \<Rightarrow> Returned (Failure err)
      | ThrownValue v \<Rightarrow> Rejected unboundReferenceManagerError)"

section \<open>reference-manager.ts\<close>

text \<open>
  The operations act on one backing file.  The world records what the file holds, whether
  \<^verbatim>\<open>fs.mkdir\<close> and \<^verbatim>\<open>fs.writeFile\<close> throw, and the clock reading of the
  operation, as a time value and as the \<^verbatim>\<open>toISOString\<close> text.  A file that is
  missing, a file whose read throws for another reason and a file that is not JSON all end
  in the inner \<^verbatim>\<open>catch\<close> of \<^verbatim>\<open>loadReferences\<close>.  A stored document
  reads back as it was written.  The local calendar of the platform is the field
  \<open>daysBack\<close>: \<open>daysBack w t n\<close> is the time value that
  \<^verbatim>\<open>d.setDate(d.getDate() - n)\<close> leaves in a date \<open>d\<close> that held \<open>t\<close>, the invalid
  date when the result is outside the range of dates.

  When an operation awaits \<^verbatim>\<open>loadReferences\<close> or \<^verbatim>\<open>saveReferences\<close> inside its
  \<^verbatim>\<open>try\<close> and the awaited promise rejects, its own handler receives the rejection, an
  \<^verbatim>\<open>Error\<close> instance, and returns it as the error of a failure.
\<close>

datatype BackingFile = Missing | Unreadable Thrown | Unparsable | Stored ReferencesData

record World =
  mkdirThrows :: "Thrown option"
  backingFile :: BackingFile
  writeThrows :: "Thrown option"
  nowMs :: int
  nowIso :: string
  daysBack :: "int \<Rightarrow> int \<Rightarrow> Date"

definition loadReferences ::
  "World \<Rightarrow> string \<Rightarrow> ReferencesData Result Outcome \<times> World" where
  "loadReferences w projPath =
     (case mkdirThrows w of
        Some e \<Rightarrow> (catchAsFailure e, w)
      | None \<Rightarrow>
          (case backingFile w of
             Stored refs \<Rightarrow> (Returned (Success refs), w)
           | _ \<Rightarrow>
               (let emptyData = \<lparr>projectPath = projPath, currentTechStack = [],
                                  references = [], lastResearchDate = nowIso w\<rparr>
                in case writeThrows w of
                     Some e \<Rightarrow> (catchAsFailure e, w)
                   | None \<Rightarrow> (Returned (Success emptyData),
                              w\<lparr>backingFile := Stored emptyData\<rparr>))))"

definition saveReferences ::
  "World \<Rightarrow> string \<Rightarrow> ReferencesData \<Rightarrow> unit Result Outcome \<times> World" where
  "saveReferences w projPath referencesData =
     (case mkdirThrows w of
        Some e \<Rightarrow> (catchAsFailure e, w)
      | None \<Rightarrow>
          (let updatedData = referencesData\<lparr>lastResearchDate := nowIso w\<rparr>
           in case writeThrows w of
                Some e \<Rightarrow> (catchAsFailure e, w)
              | None \<Rightarrow> (Returned (Success ()), w\<lparr>backingFile := Stored updatedData\<rparr>)))"

definition addReferences ::
  "World \<Rightarrow> string \<Rightarrow> Reference list \<Rightarrow> ReferencesData Result \<times> World" where
  "addReferences w projPath newReferences =
     (case loadReferences w projPath of
        (Rejected e, w1) \<Rightarrow> (Failure e, w1)
      | (Returned (Failure e), w1) \<Rightarrow> (Failure e, w1)
      | (Returned (Success currentData), w1) \<Rightarrow>
          (let existingUrls = set (map url (references currentData));
               uniqueNewReferences = filter (\<lambda>ref. url ref \<notin> existingUrls) newReferences;
               updatedData = currentData\<lparr>references := references currentData @ uniqueNewReferences\<rparr>
           in case saveReferences w1 projPath updatedData of
                (Rejected e, w2) \<Rightarrow> (Failure e, w2)
              | (Returned (Failure e), w2) \<Rightarrow> (Failure e, w2)
              | (Returned (Success u), w2) \<Rightarrow> (Success updatedData, w2)))"

text \<open>
  \<^verbatim>\<open>Array.prototype.sort\<close> with a comparator: a stable sort, an element \<open>x\<close>
  staying before \<open>y\<close> when \<open>cmp x y \<le> 0\<close>.
\<close>

fun insertBy :: "('a \<Rightarrow> 'a \<Rightarrow> int) \<Rightarrow> 'a \<Rightarrow> 'a list \<Rightarrow> 'a list" where
  "insertBy cmp x [] = [x]"
| "insertBy cmp x (y # ys) = (if cmp x y \<le> 0 then x # y # ys else y # insertBy cmp x ys)"

definition sortBy :: "('a \<Rightarrow> 'a \<Rightarrow> int) \<Rightarrow> 'a list \<Rightarrow> 'a list" where
  "sortBy cmp xs = foldr (insertBy cmp) xs []"

record SearchCriteria =
  query :: "string option"
  criteriaTechStack :: "string list option"
  criteriaFeatures :: "string list option"
  criteriaDomain :: "string option"
  minRelevanceScore :: "int option"

definition matchesQuery :: "string \<Rightarrow> Reference \<Rightarrow> bool" where
  "matchesQuery queryLower ref =
     (strIncludes (toLowerCase (name ref)) queryLower \<or>
      strIncludes (toLowerCase (description ref)) queryLower \<or>
      some (\<lambda>tech. strIncludes (toLowerCase tech) queryLower) (techStack ref) \<or>
      some (\<lambda>feature. strIncludes (toLowerCase feature) queryLower) (features ref) \<or>
      strIncludes (toLowerCase (domain ref)) queryLower)"

text \<open>The five filters of \<^verbatim>\<open>searchReferences\<close>, each applied when its criterion is
  present (a truthy string, a non-empty array, a defined number).\<close>

definition filterByQuery :: "string option \<Rightarrow> Reference list \<Rightarrow> Reference list" where
  "filterByQuery q filteredReferences =
     (case q of
        None \<Rightarrow> filteredReferences
      | Some text \<Rightarrow>
          if text \<noteq> [] then filter (matchesQuery (toLowerCase text)) filteredReferences
          else filteredReferences)"

definition filterByTechStack :: "string list option \<Rightarrow> Reference list \<Rightarrow> Reference list" where
  "filterByTechStack targets filteredReferences =
     (case targets of
        None \<Rightarrow> filteredReferences
      | Some ts \<Rightarrow>
          if length ts > 0
          then filter (\<lambda>ref. some (\<lambda>targetTech.
                         some (\<lambda>refTech. strIncludes (toLowerCase refTech) (toLowerCase targetTech))
                              (techStack ref)) ts) filteredReferences
          else filteredReferences)"

definition filterByFeatures :: "string list option \<Rightarrow> Reference list \<Rightarrow> Reference list" where
  "filterByFeatures targets filteredReferences =
     (case targets of
        None \<Rightarrow> filteredReferences
      | Some fs \<Rightarrow>
          if length fs > 0
          then filter (\<lambda>ref. some (\<lambda>targetFeature.
                         some (\<lambda>refFeature. strIncludes (toLowerCase refFeature)
                                                         (toLowerCase targetFeature))
                              (features ref)) fs) filteredReferences
          else filteredReferences)"

definition filterByDomain :: "string option \<Rightarrow> Reference list \<Rightarrow> Reference list" where
  "filterByDomain target filteredReferences =
     (case target of
        None \<Rightarrow> filteredReferences
      | Some dm \<Rightarrow>
          if dm \<noteq> []
          then filter (\<lambda>ref. strIncludes (toLowerCase (domain ref)) (toLowerCase dm))
                      filteredReferences
          else filteredReferences)"

definition filterByMinScore :: "int option \<Rightarrow> Reference list \<Rightarrow> Reference list" where
  "filterByMinScore threshold filteredReferences =
     (case threshold of
        None \<Rightarrow> filteredReferences
      | Some minScore \<Rightarrow> filter (\<lambda>ref. relevanceScore ref \<ge> minScore) filteredReferences)"

definition searchReferences ::
  "World \<Rightarrow> string \<Rightarrow> SearchCriteria \<Rightarrow> Reference list Result \<times> World" where
  "searchReferences w projPath criteria =
     (case loadReferences w projPath of
        (Rejected e, w1) \<Rightarrow> (Failure e, w1)
      | (Returned (Failure e), w1) \<Rightarrow> (Failure e, w1)
      | (Returned (Success loaded), w1) \<Rightarrow>
          (let filteredReferences = references loaded;
               filteredReferences = filterByQuery (query criteria) filteredReferences;
               filteredReferences = filterByTechStack (criteriaTechStack criteria) filteredReferences;
               filteredReferences = filterByFeatures (criteriaFeatures criteria) filteredReferences;
               filteredReferences = filterByDomain (criteriaDomain criteria) filteredReferences;
               filteredReferences = filterByMinScore (minRelevanceScore criteria) filteredReferences;
               sortedReferences =
                 sortBy (\<lambda>a b. relevanceScore b - relevanceScore a) filteredReferences
           in (Success sortedReferences, w1)))"

definition updateTechStack :: "World \<Rightarrow> string \<Rightarrow> string list \<Rightarrow> unit Result \<times> World" where
  "updateTechStack w projPath newTechStack =
     (case loadReferences w projPath of
        (Rejected e, w1) \<Rightarrow> (Failure e, w1)
      | (Returned (Failure e), w1) \<Rightarrow> (Failure e, w1)
      | (Returned (Success loaded), w1) \<Rightarrow>
          (let updatedData = loaded\<lparr>currentTechStack := newTechStack\<rparr>
           in case saveReferences w1 projPath updatedData of
                (Rejected e, w2) \<Rightarrow> (Failure e, w2)
              | (Returned saved, w2) \<Rightarrow> (saved, w2)))"

text \<open>
  \<open>maxAge\<close> is a whole number of days.  The cutoff is the clock reading after
  \<^verbatim>\<open>setDate(getDate() - maxAge)\<close>, a step of the local calendar.  The filter builds
  \<^verbatim>\<open>new Date(ref.lastUpdated)\<close>, which does not throw, and compares it with
  \<^verbatim>\<open>>=\<close>.
\<close>

definition cutoffDate :: "World \<Rightarrow> int \<Rightarrow> Date" where
  "cutoffDate w maxAge = daysBack w (nowMs w) maxAge"

definition cleanupReferences ::
  "DateParser \<Rightarrow> World \<Rightarrow> string \<Rightarrow> int \<Rightarrow> unit Result \<times> World" where
  "cleanupReferences parse w projPath maxAge =
     (case loadReferences w projPath of
        (Rejected e, w1) \<Rightarrow> (Failure e, w1)
      | (Returned (Failure e), w1) \<Rightarrow> (Failure e, w1)
      | (Returned (Success loaded), w1) \<Rightarrow>
          (let activeReferences =
                 filter (\<lambda>ref. dateGe (parse (lastUpdated ref)) (cutoffDate w1 maxAge))
                        (references loaded);
               updatedData = loaded\<lparr>references := activeReferences\<rparr>
           in case saveReferences w1 projPath updatedData of
                (Rejected e, w2) \<Rightarrow> (Failure e, w2)
              | (Returned saved, w2) \<Rightarrow> (saved, w2)))"

text \<open>The references the backing file holds (none when there is no readable document).\<close>

definition storedReferences :: "World \<Rightarrow> Reference list" where
  "storedReferences w =
     (case backingFile w of Stored refs \<Rightarrow> references refs | _ \<Rightarrow> [])"

section \<open>project-analyzer.ts: parsePackageJson\<close>

text \<open>
  An object is the list of its properties in insertion order.  Spreading a source into an
  object sets each property of the source in turn: an existing key keeps its place and
  takes the new value, a new key goes to the end.
\<close>

type_synonym 'v Obj = "(string \<times> 'v) list"

fun setProperty :: "string \<Rightarrow> 'v \<Rightarrow> 'v Obj \<Rightarrow> 'v Obj" where
  "setProperty k v [] = [(k, v)]"
| "setProperty k v ((k', v') # ps) =
     (if k' = k then (k, v) # ps else (k', v') # setProperty k v ps)"

fun spread :: "'v Obj \<Rightarrow> 'v Obj \<Rightarrow> 'v Obj" where
  "spread obj [] = obj"
| "spread obj ((k, v) # ps) = spread (setProperty k v obj) ps"

definition ObjectKeys :: "'v Obj \<Rightarrow> string list" where
  "ObjectKeys obj = map fst obj"

record PackageJson =
  pkgDependencies :: "string Obj"
  pkgDevDependencies :: "string Obj"
  pkgPeerDependencies :: "string Obj"

definition frameworkKeywords :: "string list" where
  "frameworkKeywords =
     [''react'', ''vue'', ''angular'', ''svelte'', ''next'', ''express'', ''koa'', ''hapi'']"

text \<open>
  The input is what reading and parsing package.json gives: the parsed manifest, or
  \<open>Inl\<close> the text of what \<^verbatim>\<open>readFile\<close> or \<^verbatim>\<open>JSON.parse\<close> threw.
\<close>

definition parsePackageJson :: "string + PackageJson \<Rightarrow> JsError + TechStackAnalysis" where
  "parsePackageJson file =
     (case file of
        Inl err \<Rightarrow> Inl (ProjectAnalysisError (''Failed to parse package.json: '' @ err) None)
      | Inr packageJson \<Rightarrow>
          (let deps0 = spread (spread (spread [] (pkgDependencies packageJson))
                                      (pkgDevDependencies packageJson))
                              (pkgPeerDependencies packageJson);
               deps = ObjectKeys deps0;
               fws = filter (\<lambda>dep. some (\<lambda>fw. strIncludes dep fw) frameworkKeywords) deps;
               libs = filter (\<lambda>dep. \<not> arrayIncludes fws dep \<and> \<not> startsWith dep ''@types/'') deps
           in Inr \<lparr>language = ''JavaScript/TypeScript'', dependencies = deps,
                   frameworks = fws, libraries = libs\<rparr>))"

section \<open>Concrete inputs\<close>

text \<open>The scoring scenario: a reference updated at the very instant of the clock reading
  \<open>scenarioNow\<close>, 2024-12-15T00:00:00Z.\<close>

definition scenarioNow :: int where
  "scenarioNow = 1734220800000"

definition scenarioRef :: Reference where
  "scenarioRef =
     \<lparr>url = ''https://github.com/remix-run/remix'', platform = ''github'', name = ''remix'',
      description = ''React framework with nested routing'', techStack = [''react''],
      features = [''routing''], domain = ''framework'', relevanceScore = 0, stars = None,
      lastUpdated = ''2024-12-15T00:00:00.000Z'', notesText = None, tags = None\<rparr>"

definition manyTargets :: "string list" where
  "manyTargets = [''react'', ''vue'', ''angular'', ''svelte'', ''next'']"

definition fourTechRef :: Reference where
  "fourTechRef = scenarioRef\<lparr>techStack := [''react'', ''vue'', ''angular'', ''svelte'']\<rparr>"

definition fiveTechRef :: Reference where
  "fiveTechRef = scenarioRef\<lparr>techStack := [''react'', ''vue'', ''angular'', ''svelte'', ''next'']\<rparr>"

text \<open>Worlds in the zone UTC: no backing file yet; a backing file holding given references;
  a directory that cannot be created.\<close>

definition freshWorld :: World where
  "freshWorld =
     \<lparr>mkdirThrows = None, backingFile = Missing, writeThrows = None,
      nowMs = scenarioNow, nowIso = ''2024-12-15T00:00:00.000Z'', daysBack = utcDaysBack\<rparr>"

definition worldHolding :: "Reference list \<Rightarrow> World" where
  "worldHolding refs =
     freshWorld\<lparr>backingFile :=
       Stored \<lparr>projectPath = ''/proj'', currentTechStack = [], references = refs,
               lastResearchDate = ''2024-12-01T00:00:00.000Z''\<rparr>\<rparr>"

definition permissionDenied :: JsError where
  "permissionDenied = MkError ''Error'' ''EACCES: permission denied, mkdir /proj/.opencode'' None"

definition deniedWorld :: World where
  "deniedWorld = freshWorld\<lparr>mkdirThrows := Some (ThrownError permissionDenied)\<rparr>"

text \<open>A failure that is a \<^verbatim>\<open>ReferenceManagerError\<close> wrapping a given cause, in the
  words of the specification.\<close>

definition failsWrapping :: "'a Result Outcome \<Rightarrow> JsError \<Rightarrow> bool" where
  "failsWrapping res cause =
     (case res of
        Returned (Failure e) \<Rightarrow>
          errName e = ''ReferenceManagerError'' \<and> errCause e = Some cause
      | _ \<Rightarrow> False)"

definition sameUrlRef :: Reference where
  "sameUrlRef = scenarioRef\<lparr>name := ''remix-mirror'', description := ''second entry, same url''\<rparr>"

definition undatedRef :: Reference where
  "undatedRef = scenarioRef\<lparr>lastUpdated := ''not-a-date''\<rparr>"

text \<open>Stored references for a search on the text \<^verbatim>\<open>React\<close> with threshold 70.\<close>

definition searchRefA :: Reference where
  "searchRefA = scenarioRef\<lparr>url := ''https://github.com/a/a'', name := ''a'', relevanceScore := 80\<rparr>"

definition searchRefB :: Reference where
  "searchRefB = scenarioRef\<lparr>url := ''https://github.com/b/b'', name := ''b'', relevanceScore := 90\<rparr>"

definition searchRefC :: Reference where
  "searchRefC = scenarioRef\<lparr>url := ''https://github.com/c/c'', name := ''c'', relevanceScore := 80\<rparr>"

definition searchRefLow :: Reference where
  "searchRefLow = scenarioRef\<lparr>url := ''https://github.com/d/d'', name := ''d'', relevanceScore := 60\<rparr>"

definition searchRefOther :: Reference where
  "searchRefOther =
     \<lparr>url = ''https://github.com/e/e'', platform = ''github'', name = ''e'',
      description = ''Vue starter'', techStack = [''vue''], features = [''ssr''],
      domain = ''tool'', relevanceScore = 95, stars = None,
      lastUpdated = ''2024-12-15T00:00:00.000Z'', notesText = None, tags = None\<rparr>"

definition searchWorld :: World where
  "searchWorld = worldHolding [searchRefA, searchRefLow, searchRefOther, searchRefB, searchRefC]"

definition searchCriteria :: SearchCriteria where
  "searchCriteria =
     \<lparr>query = Some ''React'', criteriaTechStack = None, criteriaFeatures = None,
      criteriaDomain = None, minRelevanceScore = Some 70\<rparr>"

definition samplePackageJson :: PackageJson where
  "samplePackageJson =
     \<lparr>pkgDependencies = [(''react'', ''^18.0.0''), (''lodash'', ''^4.17.0'')],
      pkgDevDependencies = [(''@types/react'', ''^18.0.0''), (''jest'', ''^29.0.0'')],
      pkgPeerDependencies = [(''@types/node'', ''^20.0.0''), (''react'', ''>=17'')]\<rparr>"

definition sampleAnalysis :: TechStackAnalysis where
  "sampleAnalysis =
     \<lparr>language = ''JavaScript/TypeScript'',
      dependencies = [''react'', ''lodash'', ''@types/react'', ''jest'', ''@types/node''],
      frameworks = [''react'', ''@types/react''],
      libraries = [''lodash'', ''jest'']\<rparr>"

section \<open>Auxiliary facts\<close>

lemma some_iff: "some p xs \<longleftrightarrow> (\<exists>x\<in>set xs. p x)"
  by (induction xs) auto

lemma arrayIncludes_iff: "arrayIncludes xs x \<longleftrightarrow> x \<in> set xs"
  by (auto simp: arrayIncludes_def some_iff)

lemma strIncludes_Nil: "strIncludes s [] = True"
  by (induction s) auto

lemma join_snoc: "xs \<noteq> [] \<Longrightarrow> join sep (xs @ [y]) = join sep xs @ sep @ y"
  by (induction sep xs rule: join.induct) auto

lemma join_github_suffix:
  "join '' '' (xs @ [''github'']) = ''github''
   \<or> suffix '' github'' (join '' '' (xs @ [''github'']))"
proof (cases "xs = []")
  case True
  then show ?thesis by simp
next
  case False
  then have "join '' '' (xs @ [''github'']) = join '' '' xs @ '' github''"
    by (simp add: join_snoc)
  then show ?thesis by (simp add: suffix_def)
qed

lemma lower_react: "toLowerCase ''react'' = ''react''"
  by code_simp

lemma lower_typescript: "toLowerCase ''typescript'' = ''typescript''"
  by code_simp

lemma lower_routing: "toLowerCase ''routing'' = ''routing''"
  by code_simp

lemma score_components:
  "calculateRelevanceScore parse now r tt tf td =
     min (min (int (techOverlap r tt) * 10) 40 + min (int (featureOverlap r tf) * 10) 30
          + domainScore r td + recencyBonus parse now r) 100"
  by (simp add: calculateRelevanceScore_def Let_def)

lemma domainScore_range: "0 \<le> domainScore r td \<and> domainScore r td \<le> 20"
  by (simp add: domainScore_def)

lemma recencyBonus_range: "0 \<le> recencyBonus parse now r \<and> recencyBonus parse now r \<le> 10"
  by (simp add: recencyBonus_def split: option.splits)

section \<open>Query construction\<close>

text \<open>
  C7.  For every tech stack, feature list and domain, the query is the space-join of the
  groups in the order domain, tech, features, platform: the domain alone when it is
  neither empty nor \<^verbatim>\<open>general\<close>, the first three tech entries joined by spaces when
  there is any, the first two feature entries joined by spaces when there is any, and
  \<^verbatim>\<open>github\<close>.  Entries beyond the third tech entry and the second feature entry
  do not change the query, the domain \<^verbatim>\<open>general\<close> contributes nothing, and the query
  always ends with the token \<^verbatim>\<open>github\<close>.
\<close>

theorem constructSearchQuery_shape:
  "constructSearchQuery ts fs dm =
     join '' '' ((if dm \<noteq> [] \<and> dm \<noteq> ''general'' then [dm] else [])
                 @ (if ts = [] then [] else [join '' '' (take 3 ts)])
                 @ (if fs = [] then [] else [join '' '' (take 2 fs)])
                 @ [''github''])
   \<and> constructSearchQuery ts fs dm = constructSearchQuery (take 3 ts) (take 2 fs) dm
   \<and> constructSearchQuery ts fs ''general'' = constructSearchQuery ts fs []
   \<and> (constructSearchQuery ts fs dm = ''github''
       \<or> suffix '' github'' (constructSearchQuery ts fs dm))"
proof -
  have shape: "constructSearchQuery ts fs dm =
     join '' '' ((if dm \<noteq> [] \<and> dm \<noteq> ''general'' then [dm] else [])
                 @ (if ts = [] then [] else [join '' '' (take 3 ts)])
                 @ (if fs = [] then [] else [join '' '' (take 2 fs)])
                 @ [''github''])" for ts fs dm
    by (simp add: constructSearchQuery_def domainPart_def techPart_def featurePart_def Let_def)
  have bound: "constructSearchQuery ts fs dm = constructSearchQuery (take 3 ts) (take 2 fs) dm"
    by (simp add: shape)
  have general: "constructSearchQuery ts fs ''general'' = constructSearchQuery ts fs []"
    by (simp add: shape)
  have ends: "constructSearchQuery ts fs dm = ''github''
              \<or> suffix '' github'' (constructSearchQuery ts fs dm)"
    unfolding constructSearchQuery_def Let_def
    using join_github_suffix [of "domainPart dm @ techPart ts @ featurePart fs"] by simp
  from shape bound general ends show ?thesis by blast
qed

section \<open>Relevance score\<close>

text \<open>
  C8.  For every reference, every target tech stack, target features and target domain
  (and every date parser and clock reading), the relevance score lies between 0 and 100.
\<close>

theorem calculateRelevanceScore_bounds:
  "0 \<le> calculateRelevanceScore parse now r tt tf td
   \<and> calculateRelevanceScore parse now r tt tf td \<le> 100"
  using domainScore_range [of r td] recencyBonus_range [of parse now r]
  by (simp add: score_components)

text \<open>
  C9.  The score is the sum, capped at 100, of the tech component
  \<open>min (overlap * 10) 40\<close> and the three other components.  When the feature overlap, the
  domain component and the recency bonus are the same on both sides, a larger tech overlap
  count never gives a smaller score, and from an overlap count of 4 on the score does not
  grow any more.
\<close>

theorem calculateRelevanceScore_tech_monotone:
  assumes "techOverlap r1 tt1 \<le> techOverlap r2 tt2"
    and "featureOverlap r1 tf1 = featureOverlap r2 tf2"
    and "domainScore r1 td1 = domainScore r2 td2"
    and "recencyBonus parse1 now1 r1 = recencyBonus parse2 now2 r2"
  shows "calculateRelevanceScore parse1 now1 r1 tt1 tf1 td1
           \<le> calculateRelevanceScore parse2 now2 r2 tt2 tf2 td2
       \<and> calculateRelevanceScore parse1 now1 r1 tt1 tf1 td1 =
           min (min (int (techOverlap r1 tt1) * 10) 40
                + (min (int (featureOverlap r1 tf1) * 10) 30 + domainScore r1 td1
                   + recencyBonus parse1 now1 r1)) 100
       \<and> (4 \<le> techOverlap r1 tt1 \<longrightarrow>
            calculateRelevanceScore parse1 now1 r1 tt1 tf1 td1
              = calculateRelevanceScore parse2 now2 r2 tt2 tf2 td2)"
  using assms by (auto simp: score_components)

theorem calculateRelevanceScore_tech_monotone_witness:
  "techOverlap fourTechRef manyTargets = 4 \<and> techOverlap fiveTechRef manyTargets = 5
   \<and> calculateRelevanceScore isoDateParse scenarioNow fourTechRef manyTargets
        [''routing''] ''framework''
      \<le> calculateRelevanceScore isoDateParse scenarioNow fiveTechRef manyTargets
           [''routing''] ''framework''
   \<and> calculateRelevanceScore isoDateParse scenarioNow fourTechRef manyTargets
        [''routing''] ''framework''
      = calculateRelevanceScore isoDateParse scenarioNow fiveTechRef manyTargets
          [''routing''] ''framework''"
proof -
  have t4: "techOverlap fourTechRef manyTargets = 4" by code_simp
  have t5: "techOverlap fiveTechRef manyTargets = 5" by code_simp
  have h1: "techOverlap fourTechRef manyTargets \<le> techOverlap fiveTechRef manyTargets"
    by (simp add: t4 t5)
  have h2: "featureOverlap fourTechRef [''routing''] = featureOverlap fiveTechRef [''routing'']"
    by code_simp
  have h3: "domainScore fourTechRef ''framework'' = domainScore fiveTechRef ''framework''"
    by code_simp
  have h4: "recencyBonus isoDateParse scenarioNow fourTechRef
              = recencyBonus isoDateParse scenarioNow fiveTechRef"
    by code_simp
  from calculateRelevanceScore_tech_monotone [OF h1 h2 h3 h4] t4 t5
  show ?thesis by simp
qed

text \<open>
  C2 (as amended).  A reference with tech stack \<^verbatim>\<open>["react"]\<close>, features
  \<^verbatim>\<open>["routing"]\<close>, domain \<^verbatim>\<open>"framework"\<close> and a last update at the current
  time, scored against the targets \<^verbatim>\<open>["react","typescript"]\<close>,
  \<^verbatim>\<open>["routing"]\<close> and \<^verbatim>\<open>"framework"\<close>, gets exactly 50: 10 from the one
  overlapping tech entry, 10 from the one overlapping feature, 20 from the domain and 10
  from recency.
\<close>

theorem calculateRelevanceScore_scenario:
  assumes "techStack r = [''react'']" and "features r = [''routing'']"
    and "domain r = ''framework''" and "parse (lastUpdated r) = Some now"
  shows "calculateRelevanceScore parse now r [''react'', ''typescript''] [''routing'']
           ''framework'' = 50
       \<and> min (int (techOverlap r [''react'', ''typescript'']) * 10) 40 = 10
       \<and> min (int (featureOverlap r [''routing'']) * 10) 30 = 10
       \<and> domainScore r ''framework'' = 20
       \<and> recencyBonus parse now r = 10"
proof -
  have t: "techOverlap r [''react'', ''typescript''] = 1"
    using assms(1) by (simp add: techOverlap_def lower_react lower_typescript)
  have f: "featureOverlap r [''routing''] = 1"
    using assms(2) by (simp add: featureOverlap_def lower_routing)
  have d: "domainScore r ''framework'' = 20"
    using assms(3) by (simp add: domainScore_def)
  have b: "recencyBonus parse now r = 10"
    using assms(4) by (simp add: recencyBonus_def msPerDay_def)
  show ?thesis by (simp add: score_components t f d b)
qed

theorem calculateRelevanceScore_scenario_witness:
  "techStack scenarioRef = [''react''] \<and> features scenarioRef = [''routing'']
   \<and> domain scenarioRef = ''framework''
   \<and> isoDateParse (lastUpdated scenarioRef) = Some scenarioNow
   \<and> calculateRelevanceScore isoDateParse scenarioNow scenarioRef
        [''react'', ''typescript''] [''routing''] ''framework'' = 50"
proof -
  have h1: "techStack scenarioRef = [''react'']" by (simp add: scenarioRef_def)
  have h2: "features scenarioRef = [''routing'']" by (simp add: scenarioRef_def)
  have h3: "domain scenarioRef = ''framework''" by (simp add: scenarioRef_def)
  have h4: "isoDateParse (lastUpdated scenarioRef) = Some scenarioNow" by code_simp
  from calculateRelevanceScore_scenario
         [where r = scenarioRef and parse = isoDateParse and now = scenarioNow, OF h1 h2 h3 h4]
       h1 h2 h3 h4
  show ?thesis by simp
qed

text \<open>The scenario as the specification states it, with the expected value 100, fails.\<close>

theorem calculateRelevanceScore_scenario_not_100:
  "calculateRelevanceScore isoDateParse scenarioNow scenarioRef
     [''react'', ''typescript''] [''routing''] ''framework'' \<noteq> 100"
  by code_simp

section \<open>Manifest parsing\<close>

lemma setProperty_keys: "fst ` set (setProperty k v obj) = insert k (fst ` set obj)"
  by (induction obj) force+

lemma spread_keys: "fst ` set (spread obj src) = fst ` set obj \<union> fst ` set src"
proof (induction src arbitrary: obj)
  case Nil
  then show ?case by simp
next
  case (Cons kv src)
  obtain k v where kv: "kv = (k, v)" by (cases kv)
  have "fst ` set (spread obj (kv # src)) = fst ` set (setProperty k v obj) \<union> fst ` set src"
    using Cons.IH [of "setProperty k v obj"] by (simp add: kv)
  also have "\<dots> = fst ` set obj \<union> fst ` set (kv # src)"
    by (simp add: setProperty_keys kv)
  finally show ?case .
qed

lemma merged_keys:
  "set (ObjectKeys (spread (spread (spread [] a) b) c))
     = fst ` set a \<union> fst ` set b \<union> fst ` set c"
  by (simp add: ObjectKeys_def spread_keys)

text \<open>
  C10.  \<^verbatim>\<open>parsePackageJson\<close> lists as dependencies exactly the keys of the
  dependencies, devDependencies and peerDependencies of the manifest.  A key of any of the
  three whose name starts with \<^verbatim>\<open>@types/\<close> remains in the dependencies list; it is a
  framework exactly when its name contains a framework keyword (the prefix does not
  exclude it from the frameworks), and it is never a library.
\<close>

theorem parsePackageJson_types_prefix:
  assumes "parsePackageJson (Inr pj) = Inr a"
    and "d \<in> fst ` set (pkgDependencies pj) \<union> fst ` set (pkgDevDependencies pj)
              \<union> fst ` set (pkgPeerDependencies pj)"
    and "startsWith d ''@types/''"
  shows "set (dependencies a)
           = fst ` set (pkgDependencies pj) \<union> fst ` set (pkgDevDependencies pj)
             \<union> fst ` set (pkgPeerDependencies pj)
       \<and> d \<in> set (dependencies a)
       \<and> (d \<in> set (frameworks a) \<longleftrightarrow> (\<exists>fw \<in> set frameworkKeywords. strIncludes d fw))
       \<and> d \<notin> set (libraries a)"
proof -
  have deps: "set (dependencies a)
           = fst ` set (pkgDependencies pj) \<union> fst ` set (pkgDevDependencies pj)
             \<union> fst ` set (pkgPeerDependencies pj)"
  proof -
    have "dependencies a = ObjectKeys (spread (spread (spread [] (pkgDependencies pj))
                                                       (pkgDevDependencies pj))
                                               (pkgPeerDependencies pj))"
      using assms(1) by (auto simp: parsePackageJson_def Let_def)
    then show ?thesis by (simp only: merged_keys)
  qed
  then have mem: "d \<in> set (dependencies a)"
    using assms(2) by simp
  have cls: "(d \<in> set (frameworks a) \<longleftrightarrow> (\<exists>fw \<in> set frameworkKeywords. strIncludes d fw))
             \<and> d \<notin> set (libraries a)"
    using assms(1) assms(3) mem
    by (auto simp: parsePackageJson_def Let_def arrayIncludes_iff some_iff)
  from deps mem cls show ?thesis by simp
qed

theorem parsePackageJson_types_prefix_witness:
  "parsePackageJson (Inr samplePackageJson) = Inr sampleAnalysis
   \<and> ''@types/react'' \<in> fst ` set (pkgDevDependencies samplePackageJson)
   \<and> ''@types/node'' \<in> fst ` set (pkgPeerDependencies samplePackageJson)
   \<and> ''@types/react'' \<in> set (dependencies sampleAnalysis)
   \<and> ''@types/react'' \<in> set (frameworks sampleAnalysis)
   \<and> ''@types/react'' \<notin> set (libraries sampleAnalysis)
   \<and> ''@types/node'' \<in> set (dependencies sampleAnalysis)
   \<and> ''@types/node'' \<notin> set (frameworks sampleAnalysis)
   \<and> ''@types/node'' \<notin> set (libraries sampleAnalysis)"
proof -
  have p: "parsePackageJson (Inr samplePackageJson) = Inr sampleAnalysis" by code_simp
  have r0: "''@types/react'' \<in> fst ` set (pkgDevDependencies samplePackageJson)"
    by (simp add: samplePackageJson_def)
  have n0: "''@types/node'' \<in> fst ` set (pkgPeerDependencies samplePackageJson)"
    by (simp add: samplePackageJson_def)
  have r1: "''@types/react'' \<in> fst ` set (pkgDependencies samplePackageJson)
              \<union> fst ` set (pkgDevDependencies samplePackageJson)
              \<union> fst ` set (pkgPeerDependencies samplePackageJson)"
    using r0 by simp
  have n1: "''@types/node'' \<in> fst ` set (pkgDependencies samplePackageJson)
              \<union> fst ` set (pkgDevDependencies samplePackageJson)
              \<union> fst ` set (pkgPeerDependencies samplePackageJson)"
    using n0 by simp
  have r2: "startsWith ''@types/react'' ''@types/''" by simp
  have n2: "startsWith ''@types/node'' ''@types/''" by simp
  have r3: "\<exists>fw \<in> set frameworkKeywords. strIncludes ''@types/react'' fw"
    by (simp add: frameworkKeywords_def)
  have n3: "\<not> (\<exists>fw \<in> set frameworkKeywords. strIncludes ''@types/node'' fw)"
    by (simp add: frameworkKeywords_def)
  from parsePackageJson_types_prefix [OF p r1 r2] parsePackageJson_types_prefix [OF p n1 n2]
       p r0 n0 r3 n3
  show ?thesis by simp
qed

section \<open>Reference store: loading\<close>

text \<open>
  C4 (as amended).  When \<^verbatim>\<open>fs.mkdir\<close> throws an error, or when there is no stored
  document and writing the synthesized empty state throws an error (for example,
  permission denied), \<^verbatim>\<open>loadReferences\<close> returns a failure whose error is the thrown
  error itself, not wrapped in a \<^verbatim>\<open>ReferenceManagerError\<close>; the failure is returned to
  the caller and the world is left as it was.
\<close>

theorem loadReferences_failure_passes_cause:
  assumes "mkdirThrows w = Some (ThrownError err)
           \<or> (mkdirThrows w = None
               \<and> (backingFile w = Missing \<or> backingFile w = Unparsable
                   \<or> (\<exists>e. backingFile w = Unreadable e))
               \<and> writeThrows w = Some (ThrownError err))"
  shows "loadReferences w p = (Returned (Failure err), w)"
  using assms
  by (auto simp: loadReferences_def catchAsFailure_def Let_def)

theorem loadReferences_failure_passes_cause_witness:
  "mkdirThrows deniedWorld = Some (ThrownError permissionDenied)
   \<and> loadReferences deniedWorld ''/proj'' = (Returned (Failure permissionDenied), deniedWorld)"
proof -
  have h: "mkdirThrows deniedWorld = Some (ThrownError permissionDenied)"
    by (simp add: deniedWorld_def)
  from loadReferences_failure_passes_cause [of deniedWorld permissionDenied "''/proj''"] h
  show ?thesis by simp
qed

text \<open>With a directory that cannot be created, the failure returned is not a
  \<^verbatim>\<open>ReferenceManagerError\<close> wrapping the permission error.\<close>

theorem loadReferences_error_not_wrapped:
  "\<not> failsWrapping (fst (loadReferences deniedWorld ''/proj'')) permissionDenied"
  by (simp add: failsWrapping_def loadReferences_def deniedWorld_def catchAsFailure_def
                permissionDenied_def)

section \<open>Reference store: adding\<close>

text \<open>The effect of the operations on the stored references and on what the platform
  throws.\<close>

lemma addReferences_stored:
  "storedReferences (snd (addReferences w p refs))
     = (if mkdirThrows w = None \<and> writeThrows w = None
        then storedReferences w
             @ filter (\<lambda>ref. url ref \<notin> set (map url (storedReferences w))) refs
        else storedReferences w)"
  by (auto simp: addReferences_def loadReferences_def saveReferences_def storedReferences_def
                 Let_def catchAsFailure_def
           split: option.splits BackingFile.splits Thrown.splits)

lemma addReferences_flags:
  "mkdirThrows (snd (addReferences w p refs)) = mkdirThrows w
   \<and> writeThrows (snd (addReferences w p refs)) = writeThrows w"
  by (auto simp: addReferences_def loadReferences_def saveReferences_def
                 Let_def catchAsFailure_def
           split: option.splits BackingFile.splits Thrown.splits)

lemma storedReferences_clock:
  "storedReferences (w\<lparr>nowMs := t, nowIso := s\<rparr>) = storedReferences w"
  by (simp add: storedReferences_def)

lemma cleanupReferences_stored:
  "storedReferences (snd (cleanupReferences parse w p maxAge))
     = (if mkdirThrows w = None \<and> writeThrows w = None
        then filter (\<lambda>ref. dateGe (parse (lastUpdated ref)) (cutoffDate w maxAge))
                    (storedReferences w)
        else storedReferences w)"
  by (auto simp: cleanupReferences_def loadReferences_def saveReferences_def
                 storedReferences_def Let_def catchAsFailure_def cutoffDate_def
           split: option.splits BackingFile.splits Thrown.splits)

lemma cleanupReferences_succeeds:
  "fst (cleanupReferences parse w p maxAge) = Success ()
     \<longleftrightarrow> mkdirThrows w = None \<and> writeThrows w = None"
  by (auto simp: cleanupReferences_def loadReferences_def saveReferences_def
                 Let_def catchAsFailure_def
           split: option.splits BackingFile.splits Thrown.splits)

text \<open>
  C5.  For every world and every list of new references, adding the list and then adding
  it again (at any later clock reading) leaves the same stored references, and so the same
  number of them, as adding it once.
\<close>

theorem addReferences_idempotent:
  "storedReferences
     (snd (addReferences ((snd (addReferences w p refs))\<lparr>nowMs := t, nowIso := s\<rparr>) p refs))
     = storedReferences (snd (addReferences w p refs))
   \<and> length (storedReferences
        (snd (addReferences ((snd (addReferences w p refs))\<lparr>nowMs := t, nowIso := s\<rparr>) p refs)))
     = length (storedReferences (snd (addReferences w p refs)))"
proof -
  define w1 where "w1 = snd (addReferences w p refs)"
  have flags: "mkdirThrows (w1\<lparr>nowMs := t, nowIso := s\<rparr>) = mkdirThrows w"
              "writeThrows (w1\<lparr>nowMs := t, nowIso := s\<rparr>) = writeThrows w"
    using addReferences_flags [of w p refs] by (simp_all add: w1_def)
  have seen: "filter (\<lambda>ref. url ref \<notin> set (map url (storedReferences w1))) refs = []"
    if "mkdirThrows w = None \<and> writeThrows w = None"
    using that by (auto simp: w1_def addReferences_stored filter_empty_conv)
  have again: "storedReferences (snd (addReferences (w1\<lparr>nowMs := t, nowIso := s\<rparr>) p refs))
                 = storedReferences w1"
  proof (cases "mkdirThrows w = None \<and> writeThrows w = None")
    case True
    then show ?thesis
      by (simp only: addReferences_stored [of "w1\<lparr>nowMs := t, nowIso := s\<rparr>"] flags
                     storedReferences_clock seen [OF True] if_True append_Nil2 simp_thms)
  next
    case False
    then show ?thesis
      by (simp only: addReferences_stored [of "w1\<lparr>nowMs := t, nowIso := s\<rparr>"] flags
                     storedReferences_clock if_False)
  qed
  then show ?thesis by (simp add: w1_def)
qed

text \<open>
  What keeps the stored urls distinct: \<^verbatim>\<open>addReferences\<close> with a batch whose urls are
  distinct, \<^verbatim>\<open>updateTechStack\<close> and \<^verbatim>\<open>cleanupReferences\<close>.
\<close>

lemma addReferences_distinct:
  assumes "distinct (map url (storedReferences w))" and "distinct (map url refs)"
  shows "distinct (map url (storedReferences (snd (addReferences w p refs))))"
  using assms by (auto simp: addReferences_stored distinct_map_filter) (metis imageI)

lemma updateTechStack_stored:
  "storedReferences (snd (updateTechStack w p ts)) = storedReferences w"
  by (auto simp: updateTechStack_def loadReferences_def saveReferences_def storedReferences_def
                 Let_def catchAsFailure_def
           split: option.splits BackingFile.splits Thrown.splits)

lemma cleanupReferences_distinct:
  assumes "distinct (map url (storedReferences w))"
  shows "distinct (map url (storedReferences (snd (cleanupReferences parse w p maxAge))))"
  using assms by (simp add: cleanupReferences_stored distinct_map_filter)

text \<open>
  C3.  The code at a batch of two references with the same url, added to a project that has
  no backing file yet: both are stored, so the stored list holds the url twice.
\<close>

theorem addReferences_same_url_twice:
  "url scenarioRef = url sameUrlRef
   \<and> storedReferences (snd (addReferences freshWorld ''/proj'' [scenarioRef, sameUrlRef]))
       = [scenarioRef, sameUrlRef]
   \<and> \<not> distinct (map url (storedReferences
           (snd (addReferences freshWorld ''/proj'' [scenarioRef, sameUrlRef]))))"
  by (simp add: addReferences_def loadReferences_def saveReferences_def storedReferences_def
                freshWorld_def scenarioRef_def sameUrlRef_def Let_def)

section \<open>Reference store: pruning\<close>

text \<open>
  C1.  What \<^verbatim>\<open>cleanupReferences\<close> does when it succeeds, for any date parser and
  any local calendar: it keeps exactly the stored references whose \<^verbatim>\<open>lastUpdated\<close>
  parses to a time on or after the cutoff; where the cutoff is the clock reading minus
  \<open>maxAge\<close> days of 24 hours, these are the references whose \<^verbatim>\<open>lastUpdated\<close> parses
  to a time on or after that instant.  A reference whose \<^verbatim>\<open>lastUpdated\<close> does not
  parse is compared as an invalid date, the comparison is false, and the reference is
  removed.
\<close>

theorem cleanupReferences_drops_unparseable:
  assumes "fst (cleanupReferences parse w p maxAge) = Success ()"
  shows "storedReferences (snd (cleanupReferences parse w p maxAge))
           = filter (\<lambda>r. case parse (lastUpdated r) of
                            None \<Rightarrow> False
                          | Some t \<Rightarrow> (case cutoffDate w maxAge of
                                        None \<Rightarrow> False
                                      | Some cutoff \<Rightarrow> cutoff \<le> t))
                    (storedReferences w)
       \<and> (cutoffDate w maxAge = Some (nowMs w - maxAge * msPerDay) \<longrightarrow>
            storedReferences (snd (cleanupReferences parse w p maxAge))
              = filter (\<lambda>r. case parse (lastUpdated r) of
                               None \<Rightarrow> False
                             | Some t \<Rightarrow> nowMs w - maxAge * msPerDay \<le> t)
                       (storedReferences w))
       \<and> (\<forall>r. parse (lastUpdated r) = None \<longrightarrow>
              r \<notin> set (storedReferences (snd (cleanupReferences parse w p maxAge))))"
proof -
  have ge: "dateGe a b
            = (case a of
                 None \<Rightarrow> False
               | Some t \<Rightarrow> (case b of None \<Rightarrow> False | Some cutoff \<Rightarrow> cutoff \<le> t))" for a b
    by (cases a; cases b) simp_all
  have ok: "mkdirThrows w = None \<and> writeThrows w = None"
    using assms by (simp add: cleanupReferences_succeeds)
  have general: "storedReferences (snd (cleanupReferences parse w p maxAge))
           = filter (\<lambda>r. case parse (lastUpdated r) of
                            None \<Rightarrow> False
                          | Some t \<Rightarrow> (case cutoffDate w maxAge of
                                        None \<Rightarrow> False
                                      | Some cutoff \<Rightarrow> cutoff \<le> t))
                    (storedReferences w)"
    by (simp add: cleanupReferences_stored ok ge)
  have unparsed: "r \<notin> set (storedReferences (snd (cleanupReferences parse w p maxAge)))"
    if "parse (lastUpdated r) = None" for r
    using that by (simp add: general)
  have plain: "storedReferences (snd (cleanupReferences parse w p maxAge))
              = filter (\<lambda>r. case parse (lastUpdated r) of
                               None \<Rightarrow> False
                             | Some t \<Rightarrow> nowMs w - maxAge * msPerDay \<le> t)
                       (storedReferences w)"
    if "cutoffDate w maxAge = Some (nowMs w - maxAge * msPerDay)"
    using general by (simp add: that cong: option.case_cong)
  from general plain unparsed show ?thesis by blast
qed

theorem cleanupReferences_drops_unparseable_witness:
  "fst (cleanupReferences isoDateParse (worldHolding [undatedRef]) ''/proj'' 1) = Success ()
   \<and> cutoffDate (worldHolding [undatedRef]) 1
       = Some (nowMs (worldHolding [undatedRef]) - 1 * msPerDay)
   \<and> lastUpdated undatedRef = ''not-a-date''
   \<and> isoDateParse (lastUpdated undatedRef) = None
   \<and> storedReferences (worldHolding [undatedRef]) = [undatedRef]
   \<and> storedReferences (snd (cleanupReferences isoDateParse (worldHolding [undatedRef])
        ''/proj'' 1)) = []"
proof -
  have h: "fst (cleanupReferences isoDateParse (worldHolding [undatedRef]) ''/proj'' 1)
             = Success ()"
    by (simp add: cleanupReferences_def loadReferences_def saveReferences_def
                  worldHolding_def freshWorld_def Let_def)
  have c: "cutoffDate (worldHolding [undatedRef]) 1
             = Some (nowMs (worldHolding [undatedRef]) - 1 * msPerDay)"
    by (simp add: cutoffDate_def worldHolding_def freshWorld_def utcDaysBack_def timeClip_def
                  scenarioNow_def msPerDay_def)
  have l: "lastUpdated undatedRef = ''not-a-date''"
    by (simp add: undatedRef_def)
  have n: "isoDateParse (lastUpdated undatedRef) = None"
    by code_simp
  have s: "storedReferences (worldHolding [undatedRef]) = [undatedRef]"
    by (simp add: storedReferences_def worldHolding_def)
  from cleanupReferences_drops_unparseable [OF h] h c l n s
  show ?thesis by simp
qed

section \<open>Reference store: searching\<close>

lemma insertBy_insort:
  "insertBy (\<lambda>a b. f b - f a) x xs = insort_key (\<lambda>r. - f r) x xs"
  for f :: "'a \<Rightarrow> int"
  by (induction xs) auto

lemma sortBy_sort_key:
  "sortBy (\<lambda>a b. f b - f a) xs = sort_key (\<lambda>r. - f r) xs" for f :: "'a \<Rightarrow> int"
  by (induction xs) (auto simp: sortBy_def insertBy_insort)

lemma sortBy_set: "set (sortBy (\<lambda>a b. f b - f a) xs) = set xs" for f :: "'a \<Rightarrow> int"
  by (simp add: sortBy_sort_key)

lemma sortBy_descending:
  "sorted_wrt (\<lambda>a b. f b \<le> f a) (sortBy (\<lambda>a b. f b - f a) xs)" for f :: "'a \<Rightarrow> int"
proof -
  have "sorted (map (\<lambda>r. - f r) (sort_key (\<lambda>r. - f r) xs))"
    by (rule sorted_sort_key)
  then show ?thesis
    by (simp add: sortBy_sort_key sorted_map)
qed

lemma sortBy_stable:
  "filter (\<lambda>r. f r = k) (sortBy (\<lambda>a b. f b - f a) xs) = filter (\<lambda>r. f r = k) xs"
  for f :: "'a \<Rightarrow> int"
proof -
  have "filter (\<lambda>r. - f r = - k) (sort_key (\<lambda>r. - f r) xs) = filter (\<lambda>r. - f r = - k) xs"
    by (rule sort_key_stable)
  then show ?thesis by (simp add: sortBy_sort_key)
qed

lemma filterByQuery_filter: "\<exists>P. filterByQuery q xs = filter P xs"
  unfolding filterByQuery_def
  by (cases q) (auto intro: exI [of _ "\<lambda>_. True"])

lemma filterByTechStack_filter: "\<exists>P. filterByTechStack t xs = filter P xs"
  unfolding filterByTechStack_def
  by (cases t) (auto intro: exI [of _ "\<lambda>_. True"])

lemma filterByFeatures_filter: "\<exists>P. filterByFeatures t xs = filter P xs"
  unfolding filterByFeatures_def
  by (cases t) (auto intro: exI [of _ "\<lambda>_. True"])

lemma filterByDomain_filter: "\<exists>P. filterByDomain t xs = filter P xs"
  unfolding filterByDomain_def
  by (cases t) (auto intro: exI [of _ "\<lambda>_. True"])

lemma filterByMinScore_filter: "\<exists>P. filterByMinScore t xs = filter P xs"
  unfolding filterByMinScore_def
  by (cases t) (auto intro: exI [of _ "\<lambda>_. True"])

text \<open>An empty query text skips the filter, and every reference matches the empty text.\<close>

lemma filterByQuery_matches:
  "r \<in> set (filterByQuery (Some q) xs) \<Longrightarrow> matchesQuery (toLowerCase q) r"
proof (cases "q = []")
  case True
  then show ?thesis by (simp add: matchesQuery_def toLowerCase_def strIncludes_Nil)
next
  case False
  assume "r \<in> set (filterByQuery (Some q) xs)"
  with False show ?thesis by (simp add: filterByQuery_def)
qed

lemma filterByMinScore_threshold:
  "r \<in> set (filterByMinScore (Some m) xs) \<Longrightarrow> m \<le> relevanceScore r"
  by (simp add: filterByMinScore_def)

lemma filter_members: "ys = filter P xs \<Longrightarrow> filter (\<lambda>r. r \<in> set ys) xs = ys"
  by (auto intro: filter_cong)

lemma search_stages:
  fixes c :: SearchCriteria and xs :: "Reference list"
  defines "s1 \<equiv> filterByQuery (query c) xs"
  defines "s5 \<equiv> filterByMinScore (minRelevanceScore c)
                  (filterByDomain (criteriaDomain c)
                    (filterByFeatures (criteriaFeatures c)
                      (filterByTechStack (criteriaTechStack c) s1)))"
  shows "set s5 \<subseteq> set s1" and "\<exists>P. s5 = filter P xs"
proof -
  obtain P1 where p1: "s1 = filter P1 xs"
    unfolding s1_def using filterByQuery_filter by blast
  obtain P2 where p2: "filterByTechStack (criteriaTechStack c) s1 = filter P2 s1"
    using filterByTechStack_filter by blast
  obtain P3 where p3:
    "filterByFeatures (criteriaFeatures c) (filter P2 s1) = filter P3 (filter P2 s1)"
    using filterByFeatures_filter by blast
  obtain P4 where p4: "filterByDomain (criteriaDomain c) (filter P3 (filter P2 s1))
                         = filter P4 (filter P3 (filter P2 s1))"
    using filterByDomain_filter by blast
  obtain P5 where p5:
    "filterByMinScore (minRelevanceScore c) (filter P4 (filter P3 (filter P2 s1)))
       = filter P5 (filter P4 (filter P3 (filter P2 s1)))"
    using filterByMinScore_filter by blast
  have s5: "s5 = filter P5 (filter P4 (filter P3 (filter P2 s1)))"
    by (simp only: s5_def p2 p3 p4 p5)
  show "set s5 \<subseteq> set s1" by (auto simp: s5)
  have "s5 = filter (\<lambda>r. P1 r \<and> P2 r \<and> P3 r \<and> P4 r \<and> P5 r) xs"
    by (auto simp: s5 p1 intro: filter_cong)
  then show "\<exists>P. s5 = filter P xs" by blast
qed

text \<open>
  C6.  When \<^verbatim>\<open>searchReferences\<close> is called with a query text and a minimum score
  and succeeds, every returned reference has the lower-cased query as a substring of its
  lower-cased name, description, some tech entry, some feature entry or domain, and has a
  score of at least the threshold; the returned list is in descending order of score; and
  the returned references of any one score are, in the same order, the stored references of
  that score that were returned.
\<close>

theorem searchReferences_query_and_threshold:
  assumes "query c = Some q" and "minRelevanceScore c = Some m"
    and "searchReferences w p c = (Success rs, w')"
  shows "(\<forall>r \<in> set rs.
            (strIncludes (toLowerCase (name r)) (toLowerCase q)
             \<or> strIncludes (toLowerCase (description r)) (toLowerCase q)
             \<or> (\<exists>tech \<in> set (techStack r). strIncludes (toLowerCase tech) (toLowerCase q))
             \<or> (\<exists>feature \<in> set (features r).
                   strIncludes (toLowerCase feature) (toLowerCase q))
             \<or> strIncludes (toLowerCase (domain r)) (toLowerCase q))
            \<and> m \<le> relevanceScore r)
       \<and> sorted_wrt (\<lambda>a b. relevanceScore b \<le> relevanceScore a) rs
       \<and> (\<forall>k. filter (\<lambda>r. relevanceScore r = k) rs
                = filter (\<lambda>r. relevanceScore r = k \<and> r \<in> set rs) (storedReferences w'))"
proof -
  obtain d where ld: "loadReferences w p = (Returned (Success d), w')"
    using assms(3)
    by (auto simp: searchReferences_def split: prod.splits Outcome.splits Result.splits)
  then have st: "storedReferences w' = references d"
    by (auto simp: loadReferences_def storedReferences_def Let_def catchAsFailure_def
             split: option.splits BackingFile.splits Thrown.splits)
  define s1 where "s1 = filterByQuery (query c) (references d)"
  define s5 where "s5 = filterByMinScore (minRelevanceScore c)
                  (filterByDomain (criteriaDomain c)
                    (filterByFeatures (criteriaFeatures c)
                      (filterByTechStack (criteriaTechStack c) s1)))"
  have rs: "rs = sortBy (\<lambda>a b. relevanceScore b - relevanceScore a) s5"
    using assms(3) by (simp add: searchReferences_def ld Let_def s5_def s1_def)
  have set_rs: "set rs = set s5" by (simp add: rs sortBy_set)
  have sub: "set s5 \<subseteq> set s1" and fil: "\<exists>P. s5 = filter P (references d)"
    unfolding s5_def s1_def by (rule search_stages)+
  have matches: "matchesQuery (toLowerCase q) r" if "r \<in> set rs" for r
    using that sub filterByQuery_matches [of r q "references d"]
    by (auto simp: set_rs s1_def assms(1))
  have scores: "m \<le> relevanceScore r" if "r \<in> set rs" for r
    using that filterByMinScore_threshold [of r m]
    by (simp add: set_rs s5_def assms(2))
  have sorted: "sorted_wrt (\<lambda>a b. relevanceScore b \<le> relevanceScore a) rs"
    unfolding rs by (rule sortBy_descending)
  have stable: "filter (\<lambda>r. relevanceScore r = k) rs
                = filter (\<lambda>r. relevanceScore r = k \<and> r \<in> set rs) (storedReferences w')" for k
  proof -
    from fil obtain P where "s5 = filter P (references d)" by blast
    then have "filter (\<lambda>r. r \<in> set s5) (references d) = s5" by (rule filter_members)
    then have "filter (\<lambda>r. relevanceScore r = k) s5
                 = filter (\<lambda>r. relevanceScore r = k \<and> r \<in> set s5) (references d)"
      by (metis (mono_tags, lifting) filter_filter filter_cong)
    then show ?thesis by (simp add: rs sortBy_stable sortBy_set st)
  qed
  from matches scores sorted stable show ?thesis
    by (auto simp: matchesQuery_def some_iff)
qed

theorem searchReferences_query_and_threshold_witness:
  "query searchCriteria = Some ''React'' \<and> minRelevanceScore searchCriteria = Some 70
   \<and> storedReferences searchWorld
        = [searchRefA, searchRefLow, searchRefOther, searchRefB, searchRefC]
   \<and> searchReferences searchWorld ''/proj'' searchCriteria
        = (Success [searchRefB, searchRefA, searchRefC], searchWorld)
   \<and> sorted_wrt (\<lambda>a b. relevanceScore b \<le> relevanceScore a)
        [searchRefB, searchRefA, searchRefC]
   \<and> filter (\<lambda>r. relevanceScore r = 80) [searchRefB, searchRefA, searchRefC]
        = [searchRefA, searchRefC]"
proof -
  have h1: "query searchCriteria = Some ''React''" by (simp add: searchCriteria_def)
  have h2: "minRelevanceScore searchCriteria = Some 70" by (simp add: searchCriteria_def)
  have found: "fst (searchReferences searchWorld ''/proj'' searchCriteria)
                 = Success [searchRefB, searchRefA, searchRefC]"
    by code_simp
  have unchanged: "snd (searchReferences searchWorld ''/proj'' searchCriteria) = searchWorld"
    by (simp add: searchReferences_def loadReferences_def searchWorld_def worldHolding_def
                  freshWorld_def Let_def)
  have h3: "searchReferences searchWorld ''/proj'' searchCriteria
              = (Success [searchRefB, searchRefA, searchRefC], searchWorld)"
    using found unchanged by (simp add: prod_eq_iff)
  have st: "storedReferences searchWorld
              = [searchRefA, searchRefLow, searchRefOther, searchRefB, searchRefC]"
    by (simp add: storedReferences_def searchWorld_def worldHolding_def)
  have eq: "filter (\<lambda>r. relevanceScore r = 80) [searchRefB, searchRefA, searchRefC]
              = [searchRefA, searchRefC]"
    by (simp add: searchRefA_def searchRefB_def searchRefC_def)
  from searchReferences_query_and_threshold [OF h1 h2 h3] h1 h2 h3 st eq
  show ?thesis by simp
qed

end
